theory Spec2Isabelle
  imports Main
begin

section \<open>Data model (prisma/schema.prisma)\<close>

datatype Role = Recruiter | Candidate

datatype applicationStatus = Rejected | Applied | Interviewing | Hired

text \<open>Every model's \<open>id\<close> column is a string; the field names carry a prefix where
  two models share a column name.\<close>

record User =
  u_id :: string
  fullName :: string
  email :: string
  password :: string
  role :: Role

record Company =
  c_id :: string
  c_name :: string
  logo :: string

record Job =
  j_id :: string
  recruiterId :: string
  companyId :: "string option"
  title :: string
  description :: string
  location :: string
  j_type :: string
  requirement :: string
  isOpen :: bool
  j_createdAt :: nat

record SavedJobs =
  sj_id :: string
  sj_userId :: string
  sj_jobId :: string

record jobApplication =
  a_id :: string
  applicantId :: string
  jobId :: "string option"
  status :: "applicationStatus option"
  isApplied :: bool
  resume :: string
  skills :: string
  experience :: string
  education :: string
  createdAt :: nat

text \<open>The relational store: one list of rows per table, in insertion order.\<close>

record db =
  users :: "User list"
  companies :: "Company list"
  jobs :: "Job list"
  savedJobs :: "SavedJobs list"
  jobApplications :: "jobApplication list"

section \<open>Strings\<close>

text \<open>\<open>String.prototype.includes\<close>: the needle occurs somewhere in the string.\<close>

fun startsWith :: "'a list \<Rightarrow> 'a list \<Rightarrow> bool" where
  "startsWith s [] = True"
| "startsWith [] (c # cs) = False"
| "startsWith (x # xs) (c # cs) = (x = c \<and> startsWith xs cs)"

fun includes_str :: "'a list \<Rightarrow> 'a list \<Rightarrow> bool" where
  "includes_str [] t = (t = [])"
| "includes_str (x # xs) t = (startsWith (x # xs) t \<or> includes_str xs t)"





text \<open>What the claims call containing a substring case-insensitively, said without the
  store: some stretch of the string equals the substring, character by character, up to
  the case of ASCII letters (an upper-case letter has a code from 65 to 90, its
  lower-case form the code 32 higher).\<close>

definition same_letter :: "char \<Rightarrow> char \<Rightarrow> bool" where
  "same_letter c d =
     (let m = (of_char c :: nat); n = (of_char d :: nat)
      in m = n \<or> (65 \<le> m \<and> m \<le> 90 \<and> n = m + 32) \<or> (65 \<le> n \<and> n \<le> 90 \<and> m = n + 32))"

fun starts_ignoring_case :: "string \<Rightarrow> string \<Rightarrow> bool" where
  "starts_ignoring_case s [] = True"
| "starts_ignoring_case [] (c # cs) = False"
| "starts_ignoring_case (x # xs) (c # cs) = (same_letter x c \<and> starts_ignoring_case xs cs)"

fun contains_ignoring_case :: "string \<Rightarrow> string \<Rightarrow> bool" where
  "contains_ignoring_case [] t = (t = [])"
| "contains_ignoring_case (x # xs) t =
     (starts_ignoring_case (x # xs) t \<or> contains_ignoring_case xs t)"



section \<open>Collaborators\<close>

text \<open>What \<open>verify\<close> of hono/jwt does with a credential: it throws on a malformed,
  expired or wrongly signed one, and otherwise returns the claims, whose \<open>id\<close> may be
  absent. The source also tests the returned value for truthiness.\<close>

datatype verify_result = VerifyThrows | VerifyFalsy | VerifyPayload "string option"

text \<open>The bindings of a request and the services it calls: the token service, the
  password hashing of bcryptjs (the salted digest this call produces), and what the
  store's column defaults \<open>uuid()\<close> and \<open>now()\<close> yield for a row created now.\<close>

record env =
  JWT_SECRET :: string
  verify :: "string \<Rightarrow> string \<Rightarrow> verify_result"
  sign :: "string \<times> string \<times> string \<Rightarrow> string \<Rightarrow> string"
  hash :: "string \<Rightarrow> string"
  uuid :: string
  now :: nat

text \<open>A request body after \<open>await c.req.json()\<close> and destructuring: each field is a
  string or \<open>undefined\<close> (\<open>None\<close>). A body that is not JSON makes \<open>c.req.json()\<close>
  throw; the handlers below take \<open>None\<close> for it.\<close>

record signup_body =
  sb_email :: "string option"
  sb_password :: "string option"
  sb_fullName :: "string option"
  sb_role :: "string option"

record update_body =
  ub_name :: "string option"
  ub_password :: "string option"

record application_body =
  ab_education :: "string option"
  ab_experience :: "string option"
  ab_skills :: "string option"
  ab_resume :: "string option"

record status_body =
  stb_applicationId :: "string option"
  stb_status :: "string option"

record company_body =
  cb_name :: "string option"
  cb_logo :: "string option"

text \<open>The schemas of the module \<open>../Validation\<close>, which the routes import: each is the
  \<open>success\<close> flag of its \<open>safeParse\<close>. The routes are parameterised by them.\<close>

record Validation =
  signupValidation :: "signup_body \<Rightarrow> bool"
  applicationValidation :: "application_body \<Rightarrow> bool"
  statusValidation :: "status_body \<Rightarrow> bool"
  companyValidation :: "company_body \<Rightarrow> bool"

text \<open>The enum names as they arrive in JSON; the store rejects any other string for an
  enum column.\<close>

definition parse_Role :: "string \<Rightarrow> Role option" where
  "parse_Role r =
     (if r = ''Recruiter'' then Some Recruiter
      else if r = ''Candidate'' then Some Candidate
      else None)"

definition parse_applicationStatus :: "string \<Rightarrow> applicationStatus option" where
  "parse_applicationStatus t =
     (if t = ''Rejected'' then Some Rejected
      else if t = ''Applied'' then Some Applied
      else if t = ''Interviewing'' then Some Interviewing
      else if t = ''Hired'' then Some Hired
      else None)"

fun applicationStatus_name :: "applicationStatus \<Rightarrow> string" where
  "applicationStatus_name Rejected = ''Rejected''"
| "applicationStatus_name Applied = ''Applied''"
| "applicationStatus_name Interviewing = ''Interviewing''"
| "applicationStatus_name Hired = ''Hired''"

text \<open>Modelled from the spec: the schemas of \<open>../Validation\<close> are not part of the
  sources. The spec says that Register fails with a validation error "if fields
  malformed", that Submit validates the "payload shape", and that UpdateStatus validates
  "applicationId and newStatus against the status enum". This instance accepts a body
  when every field is present and each enum field names a value of its enum.\<close>

definition Validation_spec :: Validation where
  "Validation_spec =
     \<lparr> signupValidation = (\<lambda>b. sb_email b \<noteq> None \<and> sb_password b \<noteq> None \<and> sb_fullName b \<noteq> None
          \<and> (case sb_role b of None \<Rightarrow> False | Some r \<Rightarrow> parse_Role r \<noteq> None)),
       applicationValidation = (\<lambda>b. ab_education b \<noteq> None \<and> ab_experience b \<noteq> None
          \<and> ab_skills b \<noteq> None \<and> ab_resume b \<noteq> None),
       statusValidation = (\<lambda>b. stb_applicationId b \<noteq> None
          \<and> (case stb_status b of None \<Rightarrow> False | Some t \<Rightarrow> parse_applicationStatus t \<noteq> None)),
       companyValidation = (\<lambda>b. cb_name b \<noteq> None \<and> cb_logo b \<noteq> None) \<rparr>"

text \<open>\<open>v || ""\<close> for a string that may be absent, as in
  \<open>c.req.header("authorization") || ""\<close> and \<open>c.req.query('filter') || ''\<close>.\<close>

definition or_empty :: "string option \<Rightarrow> string" where
  "or_empty v = (case v of None \<Rightarrow> [] | Some a \<Rightarrow> a)"

section \<open>Responses and exceptions\<close>

text \<open>What a handler's \<open>try\<close> block can throw.\<close>

datatype exn =
  SyntaxError             \<comment> \<open>\<open>c.req.json()\<close> on a body that is not a JSON object\<close>
| IllegalArguments        \<comment> \<open>\<open>bcrypt.hash\<close> on \<open>undefined\<close>\<close>
| PrismaValidationError   \<comment> \<open>missing or unknown argument, value outside an enum\<close>
| UniqueConstraintFailed  \<comment> \<open>a column marked \<open>@unique\<close> would repeat\<close>
| RecordNotFound          \<comment> \<open>\<open>update\<close> of a row that does not exist\<close>
| InvalidByteSequence     \<comment> \<open>a text parameter with a NUL character, which the store refuses\<close>
| InvalidLikePattern      \<comment> \<open>a pattern that ends in a lone backslash\<close>

datatype data =
  NoData
| ValidationIssues
| Thrown exn
| Profile "string \<times> string \<times> string \<times> Role" string
| UserRow User
| UserRows "User list"
| ApplicationRow jobApplication
| ApplicationRows "(jobApplication \<times> User option \<times> Job option) list"
| CompanyRow Company

text \<open>The JSON of a response: the middleware answers \<open>{msg}\<close>, the routes
  \<open>{success, message, ...}\<close>.\<close>

datatype reply = Msg string | Reply bool string data

type_synonym response = "nat \<times> reply"

text \<open>The \<open>catch\<close> block shared by all routes: status 500 with the route's message;
  nothing was written before a throw.\<close>

definition catch :: "string \<Rightarrow> db \<Rightarrow> exn + response \<times> db \<Rightarrow> response \<times> db" where
  "catch m s r = (case r of Inl e \<Rightarrow> ((500, Reply False m (Thrown e)), s) | Inr x \<Rightarrow> x)"

section \<open>Middleware\<close>

datatype next_or_response = Next "string option" | Respond response


definition authenticate :: "env \<Rightarrow> string option \<Rightarrow> next_or_response" where
  "authenticate e authorization =
     (case verify e (or_empty authorization) (JWT_SECRET e) of
        VerifyThrows \<Rightarrow> Respond (403, Msg ''Invalid or expired token!!!'')
      | VerifyFalsy \<Rightarrow> Respond (403, Msg ''Invalid token!!!'')
      | VerifyPayload i \<Rightarrow> Next i)"

text \<open>\<open>userRouter.use("/*")\<close>: \<open>Next i\<close> runs the route with \<open>userId\<close> set to \<open>i\<close>;
  on the open paths nothing is set.\<close>

definition userRouter_use :: "env \<Rightarrow> string \<Rightarrow> string option \<Rightarrow> next_or_response" where
  "userRouter_use e path authorization =
     (if includes_str path ''/signin'' \<or> includes_str path ''/signup'' then Next None
      else authenticate e authorization)"

text \<open>\<open>companyRouter.use("/*")\<close>\<close>

definition companyRouter_use :: "env \<Rightarrow> string option \<Rightarrow> next_or_response" where
  "companyRouter_use e authorization = authenticate e authorization"

section \<open>Store queries\<close>

text \<open>A condition of a \<open>where\<close> clause whose value is \<open>undefined\<close> is no condition.\<close>

definition matches :: "string option \<Rightarrow> string \<Rightarrow> bool" where
  "matches w v = (case w of None \<Rightarrow> True | Some x \<Rightarrow> v = x)"

text \<open>\<open>prisma.user.findFirst({ where: { id: userId, role } })\<close>\<close>

definition user_findFirst :: "db \<Rightarrow> string option \<Rightarrow> Role \<Rightarrow> User option" where
  "user_findFirst s userId r = find (\<lambda>u. matches userId (u_id u) \<and> role u = r) (users s)"

text \<open>\<open>prisma.job.findUnique({ where: { id } })\<close>\<close>

definition job_findUnique :: "db \<Rightarrow> string \<Rightarrow> Job option" where
  "job_findUnique s i = find (\<lambda>j. j_id j = i) (jobs s)"

text \<open>\<open>prisma.jobApplication.findFirst({ where: { applicantId, jobId } })\<close>\<close>

definition jobApplication_findFirst :: "db \<Rightarrow> string \<Rightarrow> string \<Rightarrow> jobApplication option" where
  "jobApplication_findFirst s a j =
     find (\<lambda>x. applicantId x = a \<and> jobId x = Some j) (jobApplications s)"


text \<open>\<open>prisma.user.create\<close>: the required columns must be given, \<open>role\<close> must name a
  value of the enum, and \<open>id\<close> and \<open>email\<close> are unique.\<close>

definition user_create ::
  "db \<Rightarrow> string \<Rightarrow> string \<Rightarrow> string \<Rightarrow> string option \<Rightarrow> string option \<Rightarrow> exn + User \<times> db" where
  "user_create s i em pw fn r =
     (case fn of
        None \<Rightarrow> Inl PrismaValidationError
      | Some n \<Rightarrow>
          (case r of
             None \<Rightarrow> Inl PrismaValidationError
           | Some rs \<Rightarrow>
               (case parse_Role rs of
                  None \<Rightarrow> Inl PrismaValidationError
                | Some ro \<Rightarrow>
                    if i \<in> u_id ` set (users s) \<or> em \<in> email ` set (users s)
                    then Inl UniqueConstraintFailed
                    else let u = \<lparr> u_id = i, fullName = n, email = em, password = pw, role = ro \<rparr>
                         in Inr (u, s\<lparr>users := users s @ [u]\<rparr>))))"

text \<open>\<open>prisma.user.update({ where: { id }, data })\<close>, with \<open>data\<close> the object the route
  built, as its key/value pairs. A key that is not a column of \<open>User\<close> is an unknown
  argument, rejected before any row is touched.\<close>

definition User_columns :: "string list" where
  "User_columns = [''id'', ''fullName'', ''email'', ''password'', ''role'']"

fun set_column :: "User \<Rightarrow> string \<times> string \<Rightarrow> exn + User" where
  "set_column u (k, v) =
     (if k = ''id'' then Inr (u\<lparr>u_id := v\<rparr>)
      else if k = ''fullName'' then Inr (u\<lparr>fullName := v\<rparr>)
      else if k = ''email'' then Inr (u\<lparr>email := v\<rparr>)
      else if k = ''password'' then Inr (u\<lparr>password := v\<rparr>)
      else if k = ''role'' then
        (case parse_Role v of None \<Rightarrow> Inl PrismaValidationError | Some r \<Rightarrow> Inr (u\<lparr>role := r\<rparr>))
      else Inl PrismaValidationError)"

fun set_columns :: "User \<Rightarrow> (string \<times> string) list \<Rightarrow> exn + User" where
  "set_columns u [] = Inr u"
| "set_columns u (kv # kvs) =
     (case set_column u kv of Inl x \<Rightarrow> Inl x | Inr u' \<Rightarrow> set_columns u' kvs)"

definition user_update :: "db \<Rightarrow> string option \<Rightarrow> (string \<times> string) list \<Rightarrow> exn + User \<times> db" where
  "user_update s userId updateData =
     (if \<not> list_all (\<lambda>kv. fst kv \<in> set User_columns) updateData then Inl PrismaValidationError
      else
        (case userId of
           None \<Rightarrow> Inl PrismaValidationError
         | Some i \<Rightarrow>
             (case find (\<lambda>u. u_id u = i) (users s) of
                None \<Rightarrow> Inl RecordNotFound
              | Some u \<Rightarrow>
                  (case set_columns u updateData of
                     Inl x \<Rightarrow> Inl x
                   | Inr u' \<Rightarrow>
                       if (u_id u' \<noteq> u_id u \<and> u_id u' \<in> u_id ` set (users s))
                          \<or> (email u' \<noteq> email u \<and> email u' \<in> email ` set (users s))
                       then Inl UniqueConstraintFailed
                       else Inr (u', s\<lparr>users := map (\<lambda>x. if u_id x = i then u' else x) (users s)\<rparr>)))))"

text \<open>\<open>prisma.jobApplication.create\<close> as the route calls it: \<open>isApplied\<close> takes its
  default, the four text columns are required.\<close>

definition jobApplication_create ::
  "env \<Rightarrow> db \<Rightarrow> application_body \<Rightarrow> string \<Rightarrow> string \<Rightarrow> exn + jobApplication \<times> db" where
  "jobApplication_create e s b a j =
     (case (ab_education b, ab_experience b, ab_resume b, ab_skills b) of
        (Some ed, Some ex, Some re, Some sk) \<Rightarrow>
          if uuid e \<in> a_id ` set (jobApplications s) then Inl UniqueConstraintFailed
          else let application =
                 \<lparr> a_id = uuid e, applicantId = a, jobId = Some j, status = Some Applied,
                   isApplied = True, resume = re, skills = sk, experience = ex, education = ed,
                   createdAt = now e \<rparr>
               in Inr (application, s\<lparr>jobApplications := jobApplications s @ [application]\<rparr>)
      | _ \<Rightarrow> Inl PrismaValidationError)"

text \<open>\<open>prisma.jobApplication.update({ where: { id }, data: { status } })\<close>: an
  \<open>undefined\<close> status leaves the column as it is, a string outside the enum is rejected.\<close>

definition jobApplication_update ::
  "db \<Rightarrow> string \<Rightarrow> string option \<Rightarrow> exn + jobApplication option \<times> db" where
  "jobApplication_update s i st =
     (case st of
        None \<Rightarrow> Inr (find (\<lambda>a. a_id a = i) (jobApplications s), s)
      | Some t \<Rightarrow>
          (case parse_applicationStatus t of
             None \<Rightarrow> Inl PrismaValidationError
           | Some v \<Rightarrow>
               let s' = s\<lparr>jobApplications :=
                          map (\<lambda>a. if a_id a = i then a\<lparr>status := Some v\<rparr> else a) (jobApplications s)\<rparr>
               in Inr (find (\<lambda>a. a_id a = i) (jobApplications s'), s')))"

text \<open>\<open>prisma.company.create\<close>\<close>

definition company_create :: "env \<Rightarrow> db \<Rightarrow> company_body \<Rightarrow> exn + Company \<times> db" where
  "company_create e s b =
     (case (cb_name b, cb_logo b) of
        (Some n, Some l) \<Rightarrow>
          if uuid e \<in> c_id ` set (companies s) then Inl UniqueConstraintFailed
          else let company = \<lparr> c_id = uuid e, c_name = n, logo = l \<rparr>
               in Inr (company, s\<lparr>companies := companies s @ [company]\<rparr>)
      | _ \<Rightarrow> Inl PrismaValidationError)"

section \<open>Routes of userRouter\<close>

text \<open>Each route takes the store and returns the response with the store afterwards.
  \<open>userId\<close> is \<open>c.get("userId")\<close>, unset when the middleware let the request through
  without a credential.\<close>

text \<open>\<open>POST /signup\<close>\<close>

definition post_signup :: "Validation \<Rightarrow> env \<Rightarrow> db \<Rightarrow> signup_body option \<Rightarrow> response \<times> db" where
  "post_signup V e s body =
     catch ''Server error during user creation'' s
       (case body of
          None \<Rightarrow> Inl SyntaxError
        | Some b \<Rightarrow>
            if \<not> signupValidation V b
            then Inr ((400, Reply False ''Validation Error'' ValidationIssues), s)
            else
              (case sb_email b of
                 None \<Rightarrow> Inl PrismaValidationError
               | Some em \<Rightarrow>
                   (case find (\<lambda>u. email u = em) (users s) of
                      Some userExist \<Rightarrow> Inr ((409, Reply False ''User already exists'' NoData), s)
                    | None \<Rightarrow>
                        (case sb_password b of
                           None \<Rightarrow> Inl IllegalArguments
                         | Some pw \<Rightarrow>
                             (case user_create s (uuid e) em (hash e pw) (sb_fullName b) (sb_role b) of
                                Inl x \<Rightarrow> Inl x
                              | Inr (user, s') \<Rightarrow>
                                  Inr ((201, Reply True ''User created successfully''
                                         (Profile (u_id user, email user, fullName user, role user)
                                            (sign e (u_id user, email user, fullName user) (JWT_SECRET e)))),
                                       s'))))))"


text \<open>\<open>PUT /update\<close>; \<open>if (name)\<close> and \<open>if (password)\<close> test for a non-empty string.\<close>

definition truthy :: "string option \<Rightarrow> bool" where
  "truthy v = (case v of None \<Rightarrow> False | Some x \<Rightarrow> x \<noteq> [])"

definition put_update :: "env \<Rightarrow> db \<Rightarrow> string option \<Rightarrow> update_body option \<Rightarrow> response \<times> db" where
  "put_update e s userId body =
     catch ''Server error during updating user'' s
       (case body of
          None \<Rightarrow> Inl SyntaxError
        | Some b \<Rightarrow>
            let updateData =
                  (if truthy (ub_name b) then [(''name'', the (ub_name b))] else [])
                  @ (if truthy (ub_password b) then [(''password'', hash e (the (ub_password b)))] else [])
            in (case user_update s userId updateData of
                  Inl x \<Rightarrow> Inl x
                | Inr (updatedUser, s') \<Rightarrow>
                    Inr ((200, Reply True ''User updated successfully'' (UserRow updatedUser)), s')))"

text \<open>\<open>POST /application/:id\<close>; \<open>jobId\<close> is the route parameter, and
  \<open>id: jobId || undefined\<close> leaves \<open>findUnique\<close> without a key when it is empty.\<close>

definition post_application ::
  "Validation \<Rightarrow> env \<Rightarrow> db \<Rightarrow> string option \<Rightarrow> string \<Rightarrow> application_body option \<Rightarrow> response \<times> db" where
  "post_application V e s userId jobId' body =
     catch ''Server error during application creation'' s
       (case body of
          None \<Rightarrow> Inl SyntaxError
        | Some b \<Rightarrow>
            if \<not> applicationValidation V b
            then Inr ((400, Reply False ''Validation error'' ValidationIssues), s)
            else if jobId' = [] then Inl PrismaValidationError
            else
              (case job_findUnique s jobId' of
                 None \<Rightarrow> Inr ((401, Reply False ''Job not found'' NoData), s)
               | Some job \<Rightarrow>
                   (case user_findFirst s userId Candidate of
                      None \<Rightarrow>
                        Inr ((404, Reply False ''Only Candidate can create Apllications for Job'' NoData), s)
                    | Some candidate \<Rightarrow>
                        (case jobApplication_findFirst s (u_id candidate) (j_id job) of
                           Some existingApplication \<Rightarrow>
                             Inr ((402, Reply False ''You have already applied for this job.'' NoData), s)
                         | None \<Rightarrow>
                             (case jobApplication_create e s b (u_id candidate) (j_id job) of
                                Inl x \<Rightarrow> Inl x
                              | Inr (application, s') \<Rightarrow>
                                  Inr ((201, Reply True ''Application created successfully''
                                         (ApplicationRow application)), s'))))))"

text \<open>\<open>GET /allapplications/:id\<close>\<close>

definition get_allapplications :: "db \<Rightarrow> string option \<Rightarrow> string \<Rightarrow> response \<times> db" where
  "get_allapplications s userId jobId' =
     catch ''Server error during fetching applications'' s
       (if jobId' = [] then Inr ((400, Reply False ''Job ID is required'' NoData), s)
        else
          (case job_findUnique s jobId' of
             None \<Rightarrow> Inr ((404, Reply False ''Job not found'' NoData), s)
           | Some job \<Rightarrow>
               (case user_findFirst s userId Recruiter of
                  None \<Rightarrow>
                    Inr ((403, Reply False ''Only Recruiters can view applications for this job'' NoData), s)
                | Some recruiter \<Rightarrow>
                    let allApplications =
                          map (\<lambda>a. (a, find (\<lambda>u. u_id u = applicantId a) (users s),
                                       find (\<lambda>j. Some (j_id j) = jobId a) (jobs s)))
                            (filter (\<lambda>a. jobId a = Some jobId') (jobApplications s))
                    in Inr ((200, Reply True ''Fetched applications successfully''
                              (ApplicationRows allApplications)), s))))"

text \<open>\<open>PUT /status\<close>\<close>

definition put_status ::
  "Validation \<Rightarrow> db \<Rightarrow> string option \<Rightarrow> status_body option \<Rightarrow> response \<times> db" where
  "put_status V s userId body =
     catch ''Server error occurred while updating the status'' s
       (case body of
          None \<Rightarrow> Inl SyntaxError
        | Some b \<Rightarrow>
            if \<not> statusValidation V b
            then Inr ((400, Reply False ''Invalid input: Zod validation error'' ValidationIssues), s)
            else
              (case user_findFirst s userId Recruiter of
                 None \<Rightarrow>
                   Inr ((403, Reply False ''User not found or user is not a recruiter'' NoData), s)
               | Some user \<Rightarrow>
                   (case stb_applicationId b of
                      None \<Rightarrow> Inl PrismaValidationError
                    | Some applicationId \<Rightarrow>
                        (case find (\<lambda>a. a_id a = applicationId) (jobApplications s) of
                           None \<Rightarrow> Inr ((404, Reply False ''Job application not found'' NoData), s)
                         | Some application \<Rightarrow>
                             (case jobApplication_update s (a_id application) (stb_status b) of
                                Inl x \<Rightarrow> Inl x
                              | Inr (updatedStatus, s') \<Rightarrow>
                                  Inr ((200, Reply True ''Job application status updated successfully''
                                         (case updatedStatus of
                                            None \<Rightarrow> NoData
                                          | Some a \<Rightarrow> ApplicationRow a)), s'))))))"

section \<open>Routes of companyRouter\<close>

text \<open>\<open>POST /create\<close>; the route never reads \<open>userId\<close>.\<close>

definition post_create :: "Validation \<Rightarrow> env \<Rightarrow> db \<Rightarrow> company_body option \<Rightarrow> response \<times> db" where
  "post_create V e s body =
     catch ''Server error during creating company'' s
       (case body of
          None \<Rightarrow> Inl SyntaxError
        | Some b \<Rightarrow>
            if \<not> companyValidation V b
            then Inr ((400, Reply False ''Company validation error'' ValidationIssues), s)
            else
              (case find (\<lambda>c. matches (cb_name b) (c_name c)) (companies s) of
                 Some existCompany \<Rightarrow>
                   Inr ((400, Reply False ''Company Already exists with this name'' NoData), s)
               | None \<Rightarrow>
                   (case company_create e s b of
                      Inl x \<Rightarrow> Inl x
                    | Inr (company, s') \<Rightarrow>
                        Inr ((200, Reply True ''Company created successfully'' (CompanyRow company)), s'))))"

text \<open>A request to \<open>POST /company/create\<close>: the middleware, then the route.\<close>

definition companyRouter_post_create ::
  "Validation \<Rightarrow> env \<Rightarrow> db \<Rightarrow> string option \<Rightarrow> company_body option \<Rightarrow> response \<times> db" where
  "companyRouter_post_create V e s authorization body =
     (case companyRouter_use e authorization of
        Respond r \<Rightarrow> (r, s)
      | Next userId \<Rightarrow> post_create V e s body)"

section \<open>Invariants of the store\<close>

text \<open>At most one application per (candidate, job) pair, among the applications that
  are linked to a job.\<close>

definition one_application_per_pair :: "db \<Rightarrow> bool" where
  "one_application_per_pair s =
     distinct (map (\<lambda>a. (applicantId a, jobId a)) (filter (\<lambda>a. jobId a \<noteq> None) (jobApplications s)))"

section \<open>A small store for concrete runs\<close>

definition alice :: User where
  "alice = \<lparr> u_id = ''u1'', fullName = ''Alice Smith'', email = ''alice@example.com'',
             password = ''$2a$10$alicepw'', role = Candidate \<rparr>"

definition bob :: User where
  "bob = \<lparr> u_id = ''u2'', fullName = ''Bob Jones'', email = ''bob@example.com'',
           password = ''$2a$10$bobpw'', role = Recruiter \<rparr>"

definition acme :: Company where
  "acme = \<lparr> c_id = ''c1'', c_name = ''Acme'', logo = ''acme.png'' \<rparr>"

definition openJob :: Job where
  "openJob = \<lparr> j_id = ''j1'', recruiterId = ''u2'', companyId = Some ''c1'', title = ''Engineer'',
               description = ''Builds things'', location = ''Remote'', j_type = ''Full-time'',
               requirement = ''None'', isOpen = True, j_createdAt = 1 \<rparr>"

definition closedJob :: Job where
  "closedJob = \<lparr> j_id = ''j2'', recruiterId = ''u2'', companyId = None, title = ''Designer'',
                 description = ''Draws things'', location = ''Delhi'', j_type = ''Contract'',
                 requirement = ''Portfolio'', isOpen = False, j_createdAt = 2 \<rparr>"

definition aliceApplication :: jobApplication where
  "aliceApplication = \<lparr> a_id = ''a1'', applicantId = ''u1'', jobId = Some ''j1'', status = Some Applied,
                        isApplied = True, resume = ''cv.pdf'', skills = ''HOL'', experience = ''2y'',
                        education = ''BSc'', createdAt = 3 \<rparr>"

definition db0 :: db where
  "db0 = \<lparr> users = [alice, bob], companies = [acme], jobs = [openJob, closedJob], savedJobs = [],
           jobApplications = [aliceApplication] \<rparr>"

text \<open>A token service that knows one credential for each of the two users.\<close>

definition env0 :: env where
  "env0 = \<lparr> JWT_SECRET = ''secret'',
            verify = (\<lambda>t k. if k = ''secret'' \<and> t = ''token-u1'' then VerifyPayload (Some ''u1'')
                            else if k = ''secret'' \<and> t = ''token-u2'' then VerifyPayload (Some ''u2'')
                            else VerifyThrows),
            sign = (\<lambda>(i, em, n) k. ''token-'' @ i),
            hash = (\<lambda>p. ''$2a$10$'' @ p),
            uuid = ''fresh'',
            now = 10 \<rparr>"

definition goodApplication :: application_body where
  "goodApplication = \<lparr> ab_education = Some ''MSc'', ab_experience = Some ''5y'',
                       ab_skills = Some ''Isabelle'', ab_resume = Some ''resume.pdf'' \<rparr>"

definition emptyApplication :: application_body where
  "emptyApplication = \<lparr> ab_education = None, ab_experience = None, ab_skills = None, ab_resume = None \<rparr>"

definition aliceSecondApplication :: jobApplication where
  "aliceSecondApplication = \<lparr> a_id = ''fresh'', applicantId = ''u1'', jobId = Some ''j2'',
                              status = Some Applied, isApplied = True, resume = ''resume.pdf'',
                              skills = ''Isabelle'', experience = ''5y'', education = ''MSc'',
                              createdAt = 10 \<rparr>"

definition aliceEmailOnly :: signup_body where
  "aliceEmailOnly = \<lparr> sb_email = Some ''alice@example.com'', sb_password = None,
                      sb_fullName = None, sb_role = None \<rparr>"

definition aliceAgain :: signup_body where
  "aliceAgain = \<lparr> sb_email = Some ''alice@example.com'', sb_password = Some ''hunter2'',
                  sb_fullName = Some ''Alice Again'', sb_role = Some ''Recruiter'' \<rparr>"

definition initech :: company_body where
  "initech = \<lparr> cb_name = Some ''Initech'', cb_logo = Some ''initech.png'' \<rparr>"

section \<open>Properties\<close>

lemma startsWith_iff: "startsWith s t \<longleftrightarrow> (\<exists>post. s = t @ post)"
  by (induction s t rule: startsWith.induct) auto

lemma includes_iff: "includes_str s t \<longleftrightarrow> (\<exists>pre post. s = pre @ t @ post)"
proof (induction s)
  case Nil
  then show ?case by simp
next
  case (Cons x xs)
  show ?case
  proof
    assume "includes_str (x # xs) t"
    then consider "startsWith (x # xs) t" | "includes_str xs t" by auto
    then show "\<exists>pre post. x # xs = pre @ t @ post"
    proof cases
      case 1
      then obtain post where "x # xs = [] @ t @ post" by (auto simp: startsWith_iff)
      then show ?thesis by blast
    next
      case 2
      with Cons obtain pre post where "xs = pre @ t @ post" by blast
      then have "x # xs = (x # pre) @ t @ post" by simp
      then show ?thesis by blast
    qed
  next
    assume "\<exists>pre post. x # xs = pre @ t @ post"
    then obtain pre post where eq: "x # xs = pre @ t @ post" by blast
    show "includes_str (x # xs) t"
    proof (cases pre)
      case Nil
      with eq have "startsWith (x # xs) t" by (auto simp: startsWith_iff)
      then show ?thesis by simp
    next
      case (Cons p ps)
      with eq have "xs = ps @ t @ post" by simp
      with Cons.IH have "includes_str xs t" by blast
      then show ?thesis by simp
    qed
  qed
qed

subsection \<open>The open-path test of the user router\<close>

text \<open>
  C10. The middleware of the user router decides by substring containment on the whole
  request URL: a URL that contains \<open>/signin\<close> or \<open>/signup\<close> anywhere, also in the query
  string of a protected path, goes on to the route without any verification and with no
  \<open>userId\<close> set. Every other request is verified: a credential on which \<open>verify\<close> throws
  (invalid, malformed, expired) or that yields nothing is answered with status 403, and
  a verified one runs the route with the \<open>id\<close> of its claims.
\<close>

theorem userRouter_use_open_path_is_containment:
  "userRouter_use e url authorization =
     (if (\<exists>pre post. url = pre @ ''/signin'' @ post) \<or> (\<exists>pre post. url = pre @ ''/signup'' @ post)
      then Next None
      else (case verify e (or_empty authorization) (JWT_SECRET e) of
              VerifyThrows \<Rightarrow> Respond (403, Msg ''Invalid or expired token!!!'')
            | VerifyFalsy \<Rightarrow> Respond (403, Msg ''Invalid token!!!'')
            | VerifyPayload i \<Rightarrow> Next i))"
  by (simp add: userRouter_use_def authenticate_def includes_iff)

theorem userRouter_use_open_path_is_containment_witness:
  "userRouter_use env0 ''http://localhost:8787/api/v1/user/me?next=/signin'' None = Next None
   \<and> userRouter_use env0 ''http://localhost:8787/api/v1/user/me'' (Some ''forged'')
       = Respond (403, Msg ''Invalid or expired token!!!'')
   \<and> userRouter_use env0 ''http://localhost:8787/api/v1/user/me'' (Some ''token-u1'') = Next (Some ''u1'')"
  using userRouter_use_open_path_is_containment [of env0 "''http://localhost:8787/api/v1/user/me?next=/signin''" None]
    userRouter_use_open_path_is_containment [of env0 "''http://localhost:8787/api/v1/user/me''" "Some ''forged''"]
    userRouter_use_open_path_is_containment [of env0 "''http://localhost:8787/api/v1/user/me''" "Some ''token-u1''"]
  unfolding includes_iff [symmetric]
  by (simp add: env0_def or_empty_def)

subsection \<open>Searching users\<close>
















text \<open>Containment up to case, spelled out: a stretch of the string is, character by
  character, the same as the substring up to case.\<close>

lemma starts_ignoring_case_iff:
  "starts_ignoring_case s t \<longleftrightarrow> (\<exists>mid post. s = mid @ post \<and> list_all2 same_letter mid t)"
proof (induction s t rule: starts_ignoring_case.induct)
  case (1 s)
  show ?case by simp
next
  case (2 c cs)
  show ?case by (simp add: list_all2_Cons2)
next
  case (3 x xs c cs)
  show ?case
  proof
    assume "starts_ignoring_case (x # xs) (c # cs)"
    with 3 obtain mid post where "same_letter x c" "xs = mid @ post" "list_all2 same_letter mid cs"
      by auto
    then have "x # xs = (x # mid) @ post \<and> list_all2 same_letter (x # mid) (c # cs)"
      by simp
    then show "\<exists>mid post. x # xs = mid @ post \<and> list_all2 same_letter mid (c # cs)"
      by blast
  next
    assume "\<exists>mid post. x # xs = mid @ post \<and> list_all2 same_letter mid (c # cs)"
    then obtain mid post where eq: "x # xs = mid @ post" and all: "list_all2 same_letter mid (c # cs)"
      by blast
    from all obtain m ms where mid: "mid = m # ms" and "same_letter m c" "list_all2 same_letter ms cs"
      by (auto simp: list_all2_Cons2)
    with eq have "same_letter x c" "xs = ms @ post"
      by simp_all
    with \<open>list_all2 same_letter ms cs\<close> 3 show "starts_ignoring_case (x # xs) (c # cs)"
      by auto
  qed
qed

lemma contains_ignoring_case_iff:
  "contains_ignoring_case s t
     \<longleftrightarrow> (\<exists>pre mid post. s = pre @ mid @ post \<and> list_all2 same_letter mid t)"
proof (induction s)
  case Nil
  show ?case by auto
next
  case (Cons x xs)
  show ?case
  proof
    assume "contains_ignoring_case (x # xs) t"
    then consider "starts_ignoring_case (x # xs) t" | "contains_ignoring_case xs t"
      by auto
    then show "\<exists>pre mid post. x # xs = pre @ mid @ post \<and> list_all2 same_letter mid t"
    proof cases
      case 1
      then obtain mid post where "x # xs = [] @ mid @ post" "list_all2 same_letter mid t"
        by (auto simp: starts_ignoring_case_iff)
      then show ?thesis by blast
    next
      case 2
      with Cons obtain pre mid post where "xs = pre @ mid @ post" "list_all2 same_letter mid t"
        by blast
      then have "x # xs = (x # pre) @ mid @ post \<and> list_all2 same_letter mid t"
        by simp
      then show ?thesis by blast
    qed
  next
    assume "\<exists>pre mid post. x # xs = pre @ mid @ post \<and> list_all2 same_letter mid t"
    then obtain pre mid post where eq: "x # xs = pre @ mid @ post" and all: "list_all2 same_letter mid t"
      by blast
    show "contains_ignoring_case (x # xs) t"
    proof (cases pre)
      case Nil
      with eq all have "starts_ignoring_case (x # xs) t"
        by (auto simp: starts_ignoring_case_iff)
      then show ?thesis by simp
    next
      case (Cons p ps)
      with eq have "xs = ps @ mid @ post" by simp
      with all Cons.IH have "contains_ignoring_case xs t" by blast
      then show ?thesis by simp
    qed
  qed
qed




subsection \<open>Updating one's own profile\<close>

text \<open>
  C7. UpdateSelf with a name supplied: the route stores the name under the key \<open>name\<close>,
  which is not a column of \<open>User\<close> (the display name is \<open>fullName\<close>), so the store
  rejects the update, the route answers 500 and the stored display name stays as it was.
\<close>

theorem put_update_name_throws:
  "put_update env0 db0 (Some ''u1'') (Some \<lparr> ub_name = Some ''Alice Cooper'', ub_password = None \<rparr>)
     = ((500, Reply False ''Server error during updating user'' (Thrown PrismaValidationError)), db0)
   \<and> map fullName (users db0) = [''Alice Smith'', ''Bob Jones'']"
  by (simp add: put_update_def catch_def user_update_def User_columns_def truthy_def db0_def alice_def bob_def)

text \<open>With only a password supplied, the same route stores its hash and changes nothing
  else.\<close>

lemma put_update_password_only:
  "put_update env0 db0 (Some ''u1'') (Some \<lparr> ub_name = None, ub_password = Some ''pw2'' \<rparr>)
     = ((200, Reply True ''User updated successfully'' (UserRow (alice\<lparr>password := ''$2a$10$pw2''\<rparr>))),
        db0\<lparr>users := [alice\<lparr>password := ''$2a$10$pw2''\<rparr>, bob]\<rparr>)"
  by (simp add: put_update_def catch_def user_update_def User_columns_def truthy_def db0_def alice_def bob_def env0_def)

subsection \<open>Submitting an application\<close>

text \<open>
  C2, as stated, fails: Submit looks the job up but never reads its \<open>isOpen\<close> flag, so
  a Candidate's application to a closed job is created.
\<close>

theorem post_application_closed_job_counterexample:
  "job_findUnique db0 ''j2'' = Some closedJob \<and> \<not> isOpen closedJob
   \<and> post_application Validation_spec env0 db0 (Some ''u1'') ''j2'' (Some goodApplication)
       = ((201, Reply True ''Application created successfully'' (ApplicationRow aliceSecondApplication)),
          db0\<lparr>jobApplications := [aliceApplication, aliceSecondApplication]\<rparr>)"
  by (simp add: post_application_def catch_def job_findUnique_def user_findFirst_def matches_def
      jobApplication_findFirst_def jobApplication_create_def Validation_spec_def goodApplication_def
      db0_def env0_def alice_def bob_def openJob_def closedJob_def aliceApplication_def
      aliceSecondApplication_def Let_def)

lemma job_findUnique_Some: "job_findUnique s i = Some job \<Longrightarrow> job \<in> set (jobs s) \<and> j_id job = i"
  by (auto simp: job_findUnique_def find_Some_iff)

lemma job_findUnique_isOpen:
  "job_findUnique (s\<lparr>jobs := map (\<lambda>j. j\<lparr>isOpen := f j\<rparr>) (jobs s)\<rparr>) i
     = map_option (\<lambda>j. j\<lparr>isOpen := f j\<rparr>) (job_findUnique s i)"
proof -
  have "find (\<lambda>j. j_id j = i) (map (\<lambda>j. j\<lparr>isOpen := f j\<rparr>) js)
          = map_option (\<lambda>j. j\<lparr>isOpen := f j\<rparr>) (find (\<lambda>j. j_id j = i) js)" for js
    by (induction js) auto
  then show ?thesis by (simp add: job_findUnique_def)
qed

text \<open>
  C2, amended. For every Submit call, an Application is created (status 201, or any
  change to the application table) only if the job the route parameter names exists.
  The \<open>isOpen\<close> flag is not consulted: setting the flags of the jobs to any values
  changes neither the response nor what the call does to the store.
\<close>

theorem post_application_creates_only_for_existing_job:
  "(post_application V e s userId jobId' body = (r, s')
      \<and> (fst r = 201 \<or> jobApplications s' \<noteq> jobApplications s) \<longrightarrow>
        (\<exists>job \<in> set (jobs s). j_id job = jobId' \<and> job_findUnique s jobId' = Some job))
   \<and> post_application V e (s\<lparr>jobs := map (\<lambda>j. j\<lparr>isOpen := f j\<rparr>) (jobs s)\<rparr>) userId jobId' body
       = (fst (post_application V e s userId jobId' body),
          (snd (post_application V e s userId jobId' body))\<lparr>jobs := map (\<lambda>j. j\<lparr>isOpen := f j\<rparr>) (jobs s)\<rparr>)"
proof (intro conjI impI)
  assume h: "post_application V e s userId jobId' body = (r, s')
      \<and> (fst r = 201 \<or> jobApplications s' \<noteq> jobApplications s)"
  show "\<exists>job \<in> set (jobs s). j_id job = jobId' \<and> job_findUnique s jobId' = Some job"
  proof (cases "job_findUnique s jobId'")
    case None
    with h show ?thesis
      by (auto simp: post_application_def catch_def split: option.splits if_splits)
  next
    case (Some job)
    then show ?thesis
      using job_findUnique_Some by blast
  qed
next
  let ?s = "s\<lparr>jobs := map (\<lambda>j. j\<lparr>isOpen := f j\<rparr>) (jobs s)\<rparr>"
  have u: "user_findFirst ?s userId Candidate = user_findFirst s userId Candidate"
    by (simp add: user_findFirst_def)
  have a: "jobApplication_findFirst ?s x y = jobApplication_findFirst s x y" for x y
    by (simp add: jobApplication_findFirst_def)
  have c: "jobApplication_create e ?s b x y
      = map_sum id (\<lambda>(a, t). (a, t\<lparr>jobs := map (\<lambda>j. j\<lparr>isOpen := f j\<rparr>) (jobs s)\<rparr>))
          (jobApplication_create e s b x y)" for b x y
    by (simp add: jobApplication_create_def Let_def split: option.splits)
  show "post_application V e ?s userId jobId' body
       = (fst (post_application V e s userId jobId' body),
          (snd (post_application V e s userId jobId' body))\<lparr>jobs := map (\<lambda>j. j\<lparr>isOpen := f j\<rparr>) (jobs s)\<rparr>)"
    by (simp add: post_application_def catch_def job_findUnique_isOpen u a c
        split: option.splits sum.splits)
qed

theorem post_application_creates_only_for_existing_job_witness:
  "post_application Validation_spec env0 db0 (Some ''u1'') ''j2'' (Some goodApplication)
       = ((201, Reply True ''Application created successfully'' (ApplicationRow aliceSecondApplication)),
          db0\<lparr>jobApplications := [aliceApplication, aliceSecondApplication]\<rparr>)
   \<and> (\<exists>job \<in> set (jobs db0). j_id job = ''j2'' \<and> job_findUnique db0 ''j2'' = Some job)"
proof -
  have run: "post_application Validation_spec env0 db0 (Some ''u1'') ''j2'' (Some goodApplication)
       = ((201, Reply True ''Application created successfully'' (ApplicationRow aliceSecondApplication)),
          db0\<lparr>jobApplications := [aliceApplication, aliceSecondApplication]\<rparr>)"
    by (simp add: post_application_def catch_def job_findUnique_def user_findFirst_def matches_def
      jobApplication_findFirst_def jobApplication_create_def Validation_spec_def goodApplication_def
      db0_def env0_def alice_def bob_def openJob_def closedJob_def aliceApplication_def
      aliceSecondApplication_def Let_def)
  from post_application_creates_only_for_existing_job
         [where V = Validation_spec and e = env0 and s = db0 and userId = "Some ''u1''"
            and jobId' = "''j2''" and body = "Some goodApplication"
            and r = "(201, Reply True ''Application created successfully'' (ApplicationRow aliceSecondApplication))"
            and s' = "db0\<lparr>jobApplications := [aliceApplication, aliceSecondApplication]\<rparr>"] run
  show ?thesis
    by simp
qed

lemma user_findFirst_Some:
  "user_findFirst s (Some uid) r = Some u \<Longrightarrow> u \<in> set (users s) \<and> u_id u = uid \<and> role u = r"
  by (auto simp: user_findFirst_def matches_def find_Some_iff)

lemma user_findFirst_exists:
  assumes "u \<in> set (users s)" "u_id u = uid" "role u = r"
  shows "\<exists>u'. user_findFirst s (Some uid) r = Some u'"
proof (cases "user_findFirst s (Some uid) r")
  case None
  with assms show ?thesis
    by (auto simp: user_findFirst_def matches_def find_None_iff)
qed simp

lemma user_findFirst_other_role:
  assumes "distinct (map u_id (users s))" "u \<in> set (users s)" "u_id u = uid" "role u \<noteq> r"
  shows "user_findFirst s (Some uid) r = None"
proof -
  have "inj_on u_id (set (users s))"
    using assms(1) by (simp add: distinct_map)
  then have "\<And>u'. u' \<in> set (users s) \<Longrightarrow> u_id u' = uid \<Longrightarrow> u' = u"
    using assms(2,3) by (auto dest: inj_onD)
  with assms(4) show ?thesis
    by (auto simp: user_findFirst_def matches_def find_None_iff)
qed

lemma jobApplication_findFirst_exists:
  assumes "a \<in> set (jobApplications s)" "applicantId a = uid" "jobId a = Some j"
  shows "jobApplication_findFirst s uid j \<noteq> None"
  using assms by (auto simp: jobApplication_findFirst_def find_None_iff)

lemma jobApplication_findFirst_None:
  "jobApplication_findFirst s uid j = None \<Longrightarrow>
     (uid, Some j) \<notin> (\<lambda>a. (applicantId a, jobId a)) ` set (jobApplications s)"
  by (auto simp: jobApplication_findFirst_def find_None_iff)

lemma jobApplication_create_Inr:
  "jobApplication_create e s b uid j = Inr (a, s') \<Longrightarrow>
     s' = s\<lparr>jobApplications := jobApplications s @ [a]\<rparr> \<and> applicantId a = uid \<and> jobId a = Some j"
  by (auto simp: jobApplication_create_def Let_def split: option.splits if_splits)

text \<open>What a Submit call can do to the store: nothing, or append one application for a
  pair that had none.\<close>

lemma post_application_store:
  "snd (post_application V e s userId jobId' body) = s
   \<or> (\<exists>a. snd (post_application V e s userId jobId' body) = s\<lparr>jobApplications := jobApplications s @ [a]\<rparr>
          \<and> jobId a \<noteq> None
          \<and> (applicantId a, jobId a) \<notin> (\<lambda>a. (applicantId a, jobId a)) ` set (jobApplications s))"
proof (cases body)
  case None
  then show ?thesis by (simp add: post_application_def catch_def)
next
  case body: (Some b)
  show ?thesis
  proof (cases "applicationValidation V b \<and> jobId' \<noteq> []")
    case False
    with body show ?thesis by (auto simp: post_application_def catch_def)
  next
    case valid: True
    show ?thesis
    proof (cases "job_findUnique s jobId'")
      case None
      with body valid show ?thesis by (simp add: post_application_def catch_def)
    next
      case job: (Some job)
      show ?thesis
      proof (cases "user_findFirst s userId Candidate")
        case None
        with body valid job show ?thesis by (simp add: post_application_def catch_def)
      next
        case candidate: (Some candidate)
        show ?thesis
        proof (cases "jobApplication_findFirst s (u_id candidate) (j_id job)")
          case (Some existingApplication)
          with body valid job candidate show ?thesis by (simp add: post_application_def catch_def)
        next
          case none: None
          show ?thesis
          proof (cases "jobApplication_create e s b (u_id candidate) (j_id job)")
            case (Inl x)
            with body valid job candidate none show ?thesis
              by (simp add: post_application_def catch_def)
          next
            case (Inr p)
            obtain a s' where p: "p = (a, s')" by (cases p)
            with Inr have made: "jobApplication_create e s b (u_id candidate) (j_id job) = Inr (a, s')"
              by simp
            then have s': "s' = s\<lparr>jobApplications := jobApplications s @ [a]\<rparr>"
              and a: "applicantId a = u_id candidate" "jobId a = Some (j_id job)"
              by (auto dest: jobApplication_create_Inr)
            have "snd (post_application V e s userId jobId' body) = s'"
              using body valid job candidate none made by (simp add: post_application_def catch_def)
            moreover have "(applicantId a, jobId a) \<notin> (\<lambda>a. (applicantId a, jobId a)) ` set (jobApplications s)"
              using jobApplication_findFirst_None [OF none] a by simp
            ultimately show ?thesis using s' a by blast
          qed
        qed
      qed
    qed
  qed
qed

lemma post_application_preserves_pairs:
  assumes "one_application_per_pair s"
  shows "one_application_per_pair (snd (post_application V e s userId jobId' body))"
  using post_application_store [of V e s userId jobId' body] assms
  by (auto simp: one_application_per_pair_def)


text \<open>
  C1, as stated, fails: where an Application for the (candidate, job) pair exists, a
  Submit call by that candidate for that job whose body does not pass validation is
  answered 400 (validation error), and one whose body is not JSON is answered 500, not
  402 (already applied); the body is read and validated first.
\<close>

theorem post_application_existing_malformed_counterexample:
  "jobApplication_findFirst db0 ''u1'' ''j1'' = Some aliceApplication
   \<and> user_findFirst db0 (Some ''u1'') Candidate = Some alice
   \<and> post_application Validation_spec env0 db0 (Some ''u1'') ''j1'' (Some emptyApplication)
       = ((400, Reply False ''Validation error'' ValidationIssues), db0)
   \<and> post_application Validation_spec env0 db0 (Some ''u1'') ''j1'' None
       = ((500, Reply False ''Server error during application creation'' (Thrown SyntaxError)), db0)"
  by (simp add: post_application_def catch_def user_findFirst_def matches_def
      jobApplication_findFirst_def Validation_spec_def emptyApplication_def
      db0_def alice_def bob_def aliceApplication_def)

text \<open>
  C1, amended. In every state in which an Application exists for a (candidate, job) pair:
  a Submit call by that candidate for that job whose body parses and passes validation
  fails with 402 "already applied" (the candidate and the job being rows of the store);
  and every Submit call by that candidate for that job, whatever its body, leaves the
  store as it was. So Submit keeps at most one Application per (candidate, job) pair: it
  preserves that invariant from any state, for any caller, job and body.
\<close>

theorem post_application_second_submit_conflicts:
  assumes "a \<in> set (jobApplications s)" "applicantId a = uid" "jobId a = Some jobId'"
  shows "(body = Some b \<and> applicationValidation V b \<and> jobId' \<noteq> []
            \<and> job \<in> set (jobs s) \<and> j_id job = jobId'
            \<and> u \<in> set (users s) \<and> u_id u = uid \<and> role u = Candidate \<longrightarrow>
          post_application V e s (Some uid) jobId' body
            = ((402, Reply False ''You have already applied for this job.'' NoData), s))
       \<and> snd (post_application V e s (Some uid) jobId' body) = s
       \<and> (one_application_per_pair t \<longrightarrow>
            one_application_per_pair (snd (post_application V e t userId j body')))"
proof (intro conjI impI)
  assume h: "body = Some b \<and> applicationValidation V b \<and> jobId' \<noteq> []
            \<and> job \<in> set (jobs s) \<and> j_id job = jobId'
            \<and> u \<in> set (users s) \<and> u_id u = uid \<and> role u = Candidate"
  then obtain job' where job': "job_findUnique s jobId' = Some job'"
    by (cases "job_findUnique s jobId'") (auto simp: job_findUnique_def find_None_iff)
  from h obtain candidate where cand: "user_findFirst s (Some uid) Candidate = Some candidate"
    using user_findFirst_exists by blast
  have "u_id candidate = uid" "j_id job' = jobId'"
    using user_findFirst_Some [OF cand] job_findUnique_Some [OF job'] by simp_all
  then obtain existing where "jobApplication_findFirst s (u_id candidate) (j_id job') = Some existing"
    using jobApplication_findFirst_exists [OF assms] by auto
  with h job' cand
  show "post_application V e s (Some uid) jobId' body
            = ((402, Reply False ''You have already applied for this job.'' NoData), s)"
    by (simp add: post_application_def catch_def)
next
  show "snd (post_application V e s (Some uid) jobId' body) = s"
  proof (rule ccontr)
    assume changed: "snd (post_application V e s (Some uid) jobId' body) \<noteq> s"
    then have "\<exists>candidate job'. user_findFirst s (Some uid) Candidate = Some candidate
        \<and> job_findUnique s jobId' = Some job'
        \<and> jobApplication_findFirst s (u_id candidate) (j_id job') = None"
      by (auto simp: post_application_def catch_def split: option.splits if_splits)
    then obtain candidate job' where cand: "user_findFirst s (Some uid) Candidate = Some candidate"
      and job': "job_findUnique s jobId' = Some job'"
      and none: "jobApplication_findFirst s (u_id candidate) (j_id job') = None"
      by blast
    have "u_id candidate = uid" "j_id job' = jobId'"
      using user_findFirst_Some [OF cand] job_findUnique_Some [OF job'] by simp_all
    with none jobApplication_findFirst_exists [OF assms] show False by simp
  qed
next
  assume "one_application_per_pair t"
  then show "one_application_per_pair (snd (post_application V e t userId j body'))"
    by (rule post_application_preserves_pairs)
qed

theorem post_application_second_submit_conflicts_witness:
  "aliceApplication \<in> set (jobApplications db0) \<and> applicantId aliceApplication = ''u1''
   \<and> jobId aliceApplication = Some ''j1'' \<and> one_application_per_pair db0
   \<and> post_application Validation_spec env0 db0 (Some ''u1'') ''j1'' (Some goodApplication)
       = ((402, Reply False ''You have already applied for this job.'' NoData), db0)
   \<and> snd (post_application Validation_spec env0 db0 (Some ''u1'') ''j1'' None) = db0
   \<and> one_application_per_pair
        (snd (post_application Validation_spec env0 db0 (Some ''u1'') ''j2'' (Some goodApplication)))"
proof -
  have a: "aliceApplication \<in> set (jobApplications db0)" "applicantId aliceApplication = ''u1''"
    "jobId aliceApplication = Some ''j1''"
    by (simp_all add: db0_def aliceApplication_def)
  have inv: "one_application_per_pair db0"
    by (simp add: one_application_per_pair_def db0_def aliceApplication_def)
  have pre: "Some goodApplication = Some goodApplication
      \<and> applicationValidation Validation_spec goodApplication \<and> ''j1'' \<noteq> []
      \<and> openJob \<in> set (jobs db0) \<and> j_id openJob = ''j1''
      \<and> alice \<in> set (users db0) \<and> u_id alice = ''u1'' \<and> role alice = Candidate"
    by (simp add: Validation_spec_def goodApplication_def db0_def openJob_def alice_def)
  from post_application_second_submit_conflicts
         [where body = "Some goodApplication" and b = goodApplication and V = Validation_spec
            and job = openJob and u = alice and e = env0 and t = db0 and userId = "Some ''u1''"
            and j = "''j2''" and body' = "Some goodApplication", OF a] pre inv
  have "post_application Validation_spec env0 db0 (Some ''u1'') ''j1'' (Some goodApplication)
       = ((402, Reply False ''You have already applied for this job.'' NoData), db0)"
    and "one_application_per_pair
        (snd (post_application Validation_spec env0 db0 (Some ''u1'') ''j2'' (Some goodApplication)))"
    by blast+
  moreover from post_application_second_submit_conflicts
         [where body = None and V = Validation_spec and e = env0, OF a]
  have "snd (post_application Validation_spec env0 db0 (Some ''u1'') ''j1'' None) = db0"
    by blast
  ultimately show ?thesis using a inv by simp
qed

text \<open>
  C4, as stated, fails: a Recruiter's Submit on an existing job whose body does not pass
  validation is answered 400 (validation error), and one whose body is not JSON is
  answered 500, not the "only Candidate" refusal; the body is read and validated before
  the caller's role is looked at.
\<close>

theorem post_application_recruiter_malformed_counterexample:
  "user_findFirst db0 (Some ''u2'') Recruiter = Some bob
   \<and> job_findUnique db0 ''j1'' = Some openJob
   \<and> post_application Validation_spec env0 db0 (Some ''u2'') ''j1'' (Some emptyApplication)
       = ((400, Reply False ''Validation error'' ValidationIssues), db0)
   \<and> post_application Validation_spec env0 db0 (Some ''u2'') ''j1'' None
       = ((500, Reply False ''Server error during application creation'' (Thrown SyntaxError)), db0)"
  by (simp add: post_application_def catch_def user_findFirst_def matches_def job_findUnique_def
      Validation_spec_def emptyApplication_def db0_def alice_def bob_def openJob_def)

text \<open>
  C4, amended. For every caller who is a user of role Recruiter (user ids being unique),
  Submit on any existing job with a body that parses and passes validation is refused
  with 404 "Only Candidate can create Apllications for Job"; and whatever the body, the
  call leaves the store as it was, so no Application is created.
\<close>

theorem post_application_recruiter_forbidden:
  assumes "distinct (map u_id (users s))" "u \<in> set (users s)" "u_id u = uid" "role u = Recruiter"
    and "jobId' \<noteq> []" "job_findUnique s jobId' = Some job"
  shows "(body = Some b \<and> applicationValidation V b \<longrightarrow>
          post_application V e s (Some uid) jobId' body
            = ((404, Reply False ''Only Candidate can create Apllications for Job'' NoData), s))
       \<and> snd (post_application V e s (Some uid) jobId' body) = s"
proof -
  have none: "user_findFirst s (Some uid) Candidate = None"
    using assms(1-4) by (intro user_findFirst_other_role [of s u]) simp_all
  show ?thesis
  proof (cases body)
    case None
    then show ?thesis by (simp add: post_application_def catch_def)
  next
    case (Some b')
    with none assms(5,6) show ?thesis
      by (simp add: post_application_def catch_def)
  qed
qed

theorem post_application_recruiter_forbidden_witness:
  "distinct (map u_id (users db0)) \<and> bob \<in> set (users db0) \<and> u_id bob = ''u2'' \<and> role bob = Recruiter
   \<and> job_findUnique db0 ''j1'' = Some openJob
   \<and> post_application Validation_spec env0 db0 (Some ''u2'') ''j1'' (Some goodApplication)
        = ((404, Reply False ''Only Candidate can create Apllications for Job'' NoData), db0)
   \<and> snd (post_application Validation_spec env0 db0 (Some ''u2'') ''j1'' (Some emptyApplication)) = db0"
proof -
  have h: "distinct (map u_id (users db0))" "bob \<in> set (users db0)" "u_id bob = ''u2''"
    "role bob = Recruiter" "''j1'' \<noteq> []" "job_findUnique db0 ''j1'' = Some openJob"
    by (simp_all add: db0_def alice_def bob_def openJob_def job_findUnique_def)
  have v: "applicationValidation Validation_spec goodApplication"
    by (simp add: Validation_spec_def goodApplication_def)
  from post_application_recruiter_forbidden
         [OF h, where body = "Some goodApplication" and b = goodApplication and V = Validation_spec
            and e = env0] v
  have "post_application Validation_spec env0 db0 (Some ''u2'') ''j1'' (Some goodApplication)
        = ((404, Reply False ''Only Candidate can create Apllications for Job'' NoData), db0)"
    by simp
  moreover from post_application_recruiter_forbidden
         [OF h, where body = "Some emptyApplication" and V = Validation_spec and e = env0]
  have "snd (post_application Validation_spec env0 db0 (Some ''u2'') ''j1'' (Some emptyApplication)) = db0"
    by simp
  ultimately show ?thesis using h by simp
qed

subsection \<open>Recruiter-only routes\<close>

text \<open>
  C5. For every caller who is a user of role Candidate (user ids being unique): ListForJob
  on any existing job fails with 403, and UpdateStatus on any input passing validation
  fails with 403. The role check of UpdateStatus comes before the application lookup:
  the 403 does not depend on whether the applicationId resolves.
\<close>

theorem candidate_is_forbidden:
  assumes "distinct (map u_id (users s))" "u \<in> set (users s)" "u_id u = uid" "role u = Candidate"
  shows "(jobId' \<noteq> [] \<and> job_findUnique s jobId' = Some job \<longrightarrow>
          get_allapplications s (Some uid) jobId'
            = ((403, Reply False ''Only Recruiters can view applications for this job'' NoData), s))
       \<and> (statusValidation V b \<longrightarrow>
          put_status V s (Some uid) (Some b)
            = ((403, Reply False ''User not found or user is not a recruiter'' NoData), s))"
proof -
  have none: "user_findFirst s (Some uid) Recruiter = None"
    using assms by (intro user_findFirst_other_role [of s u]) simp_all
  then show ?thesis
    by (simp add: get_allapplications_def put_status_def catch_def)
qed

theorem candidate_is_forbidden_witness:
  "distinct (map u_id (users db0)) \<and> alice \<in> set (users db0) \<and> u_id alice = ''u1'' \<and> role alice = Candidate
   \<and> get_allapplications db0 (Some ''u1'') ''j1''
        = ((403, Reply False ''Only Recruiters can view applications for this job'' NoData), db0)
   \<and> find (\<lambda>a. a_id a = ''no-such-application'') (jobApplications db0) = None
   \<and> put_status Validation_spec db0 (Some ''u1'')
        (Some \<lparr> stb_applicationId = Some ''no-such-application'', stb_status = Some ''Hired'' \<rparr>)
        = ((403, Reply False ''User not found or user is not a recruiter'' NoData), db0)"
proof -
  have h: "distinct (map u_id (users db0))" "alice \<in> set (users db0)" "u_id alice = ''u1''"
    "role alice = Candidate"
    by (simp_all add: db0_def alice_def bob_def)
  have j: "''j1'' \<noteq> [] \<and> job_findUnique db0 ''j1'' = Some openJob"
    by (simp add: db0_def openJob_def job_findUnique_def)
  have v: "statusValidation Validation_spec
             \<lparr> stb_applicationId = Some ''no-such-application'', stb_status = Some ''Hired'' \<rparr>"
    by (simp add: Validation_spec_def parse_applicationStatus_def)
  have n: "find (\<lambda>a. a_id a = ''no-such-application'') (jobApplications db0) = None"
    by (simp add: db0_def aliceApplication_def)
  from candidate_is_forbidden [OF h, where jobId' = "''j1''" and job = openJob and V = Validation_spec
      and b = "\<lparr> stb_applicationId = Some ''no-such-application'', stb_status = Some ''Hired'' \<rparr>"] j v
  show ?thesis using h n by simp
qed

subsection \<open>Updating the status of an application\<close>

lemma find_status_update:
  "find (\<lambda>x. a_id x = i) (map (\<lambda>x. if a_id x = i then x\<lparr>status := v\<rparr> else x) xs)
     = map_option (\<lambda>x. x\<lparr>status := v\<rparr>) (find (\<lambda>x. a_id x = i) xs)"
  by (induction xs) auto

lemma parse_applicationStatus_name:
  "parse_applicationStatus (applicationStatus_name v) = Some v"
  by (cases v) (simp_all add: parse_applicationStatus_def)

text \<open>
  C3. For every caller who is a user of role Recruiter, every existing Application and
  each of the four status values, UpdateStatus (the body passing the status schema)
  answers 200 with the updated row and stores exactly that value as the status of the
  Application with that id, whatever the status was before; no other row changes.
\<close>

theorem put_status_sets_any_status:
  assumes "u \<in> set (users s)" "u_id u = uid" "role u = Recruiter"
    and "a \<in> set (jobApplications s)" "a_id a = applicationId"
    and "statusValidation V \<lparr> stb_applicationId = Some applicationId,
                               stb_status = Some (applicationStatus_name newStatus) \<rparr>"
  shows "\<exists>application \<in> set (jobApplications s). a_id application = applicationId \<and>
         put_status V s (Some uid)
             (Some \<lparr> stb_applicationId = Some applicationId,
                     stb_status = Some (applicationStatus_name newStatus) \<rparr>)
           = ((200, Reply True ''Job application status updated successfully''
                 (ApplicationRow (application\<lparr>status := Some newStatus\<rparr>))),
              s\<lparr>jobApplications :=
                  map (\<lambda>x. if a_id x = applicationId then x\<lparr>status := Some newStatus\<rparr> else x)
                    (jobApplications s)\<rparr>)"
proof -
  obtain user where user: "user_findFirst s (Some uid) Recruiter = Some user"
    using user_findFirst_exists [OF assms(1-3)] by blast
  obtain application where app: "find (\<lambda>x. a_id x = applicationId) (jobApplications s) = Some application"
    using assms(4,5) by (cases "find (\<lambda>x. a_id x = applicationId) (jobApplications s)")
      (auto simp: find_None_iff)
  then have mem: "application \<in> set (jobApplications s)" and id: "a_id application = applicationId"
    by (auto simp: find_Some_iff)
  have "put_status V s (Some uid)
             (Some \<lparr> stb_applicationId = Some applicationId,
               stb_status = Some (applicationStatus_name newStatus) \<rparr>)
           = ((200, Reply True ''Job application status updated successfully''
                 (ApplicationRow (application\<lparr>status := Some newStatus\<rparr>))),
              s\<lparr>jobApplications :=
                  map (\<lambda>x. if a_id x = applicationId then x\<lparr>status := Some newStatus\<rparr> else x)
                    (jobApplications s)\<rparr>)"
    using user app id assms(6)
    by (simp add: put_status_def catch_def jobApplication_update_def Let_def
        parse_applicationStatus_name find_status_update)
  with mem id show ?thesis by blast
qed


theorem put_status_sets_any_status_witness:
  "bob \<in> set (users db0) \<and> role bob = Recruiter
   \<and> aliceApplication \<in> set (jobApplications db0) \<and> status aliceApplication = Some Applied
   \<and> put_status Validation_spec db0 (Some ''u2'')
         (Some \<lparr> stb_applicationId = Some ''a1'', stb_status = Some ''Hired'' \<rparr>)
       = ((200, Reply True ''Job application status updated successfully''
             (ApplicationRow (aliceApplication\<lparr>status := Some Hired\<rparr>))),
          db0\<lparr>jobApplications := [aliceApplication\<lparr>status := Some Hired\<rparr>]\<rparr>)
   \<and> put_status Validation_spec (db0\<lparr>jobApplications := [aliceApplication\<lparr>status := Some Hired\<rparr>]\<rparr>)
         (Some ''u2'') (Some \<lparr> stb_applicationId = Some ''a1'', stb_status = Some ''Applied'' \<rparr>)
       = ((200, Reply True ''Job application status updated successfully''
             (ApplicationRow aliceApplication)), db0)"
proof -
  let ?hired = "aliceApplication\<lparr>status := Some Hired\<rparr>"
  let ?db1 = "db0\<lparr>jobApplications := [?hired]\<rparr>"
  have u: "bob \<in> set (users db0)" "u_id bob = ''u2''" "role bob = Recruiter"
    by (simp_all add: db0_def bob_def)
  have u1: "bob \<in> set (users ?db1)"
    by (simp add: db0_def)
  have a: "aliceApplication \<in> set (jobApplications db0)" "a_id aliceApplication = ''a1''"
    "status aliceApplication = Some Applied"
    by (simp_all add: db0_def aliceApplication_def)
  have a1: "?hired \<in> set (jobApplications ?db1)" "a_id ?hired = ''a1''"
    by (simp_all add: aliceApplication_def)
  have v: "statusValidation Validation_spec
             \<lparr> stb_applicationId = Some ''a1'', stb_status = Some (applicationStatus_name Hired) \<rparr>"
    "statusValidation Validation_spec
             \<lparr> stb_applicationId = Some ''a1'', stb_status = Some (applicationStatus_name Applied) \<rparr>"
    by (simp_all add: Validation_spec_def parse_applicationStatus_def)
  have "put_status Validation_spec db0 (Some ''u2'')
         (Some \<lparr> stb_applicationId = Some ''a1'', stb_status = Some ''Hired'' \<rparr>)
       = ((200, Reply True ''Job application status updated successfully'' (ApplicationRow ?hired)), ?db1)"
    using put_status_sets_any_status [OF u a(1,2) v(1)]
    by (auto simp: db0_def aliceApplication_def)
  moreover have "put_status Validation_spec ?db1 (Some ''u2'')
         (Some \<lparr> stb_applicationId = Some ''a1'', stb_status = Some ''Applied'' \<rparr>)
       = ((200, Reply True ''Job application status updated successfully''
             (ApplicationRow aliceApplication)), db0)"
    using put_status_sets_any_status [OF u1 u(2,3) a1 v(2)]
    by (auto simp: db0_def aliceApplication_def)
  ultimately show ?thesis using u a by simp
qed

subsection \<open>Registering\<close>

text \<open>
  C6, as stated, fails: a Register call with a registered email whose other fields do not
  pass validation (here they are absent) is answered 400 (validation error), not 409;
  the whole body is validated before the email is looked up.
\<close>

theorem post_signup_duplicate_malformed_counterexample:
  "alice \<in> set (users db0) \<and> email alice = ''alice@example.com''
   \<and> sb_email aliceEmailOnly = Some ''alice@example.com''
   \<and> post_signup Validation_spec env0 db0 (Some aliceEmailOnly)
       = ((400, Reply False ''Validation Error'' ValidationIssues), db0)"
  by (simp add: post_signup_def catch_def Validation_spec_def aliceEmailOnly_def db0_def alice_def)

text \<open>
  C6, amended. For every Register call whose email is already registered: if the body
  passes validation the call fails with 409 "User already exists", whatever fullName,
  password and role it carries; and whether or not it passes validation, the store is
  left as it was, so no User is created.
\<close>

theorem post_signup_duplicate_email:
  assumes "sb_email b = Some em" "u \<in> set (users s)" "email u = em"
  shows "(signupValidation V b \<longrightarrow>
          post_signup V e s (Some b) = ((409, Reply False ''User already exists'' NoData), s))
       \<and> snd (post_signup V e s (Some b)) = s"
proof -
  obtain userExist where "find (\<lambda>x. email x = em) (users s) = Some userExist"
    using assms(2,3) by (cases "find (\<lambda>x. email x = em) (users s)") (auto simp: find_None_iff)
  with assms(1) show ?thesis
    by (simp add: post_signup_def catch_def)
qed

theorem post_signup_duplicate_email_witness:
  "sb_email aliceAgain = Some ''alice@example.com'' \<and> alice \<in> set (users db0)
   \<and> email alice = ''alice@example.com'' \<and> signupValidation Validation_spec aliceAgain
   \<and> post_signup Validation_spec env0 db0 (Some aliceAgain)
        = ((409, Reply False ''User already exists'' NoData), db0)
   \<and> snd (post_signup Validation_spec env0 db0 (Some aliceEmailOnly)) = db0"
proof -
  have h: "sb_email aliceAgain = Some ''alice@example.com''" "alice \<in> set (users db0)"
    "email alice = ''alice@example.com''"
    by (simp_all add: aliceAgain_def db0_def alice_def)
  have h': "sb_email aliceEmailOnly = Some ''alice@example.com''"
    by (simp add: aliceEmailOnly_def)
  have v: "signupValidation Validation_spec aliceAgain"
    by (simp add: Validation_spec_def aliceAgain_def parse_Role_def)
  from post_signup_duplicate_email [OF h, of Validation_spec env0] v
    post_signup_duplicate_email [OF h' h(2,3), of Validation_spec env0]
  show ?thesis using h v by simp
qed

subsection \<open>Creating a company\<close>

text \<open>
  C9. Company creation consults no role. For every caller with a verified credential
  (a Candidate included), a request to create a company whose body parses, passes
  validation, and names a company not yet present is answered 200 and the company is
  stored (the store's fresh id not clashing). Such a caller is never answered 403: the
  status is 200, or 400 for a validation error or an existing company of that name, or
  500 with the route's internal-error message. And the outcome does not depend on the
  user table at all, so on no user's role.
\<close>

theorem company_create_needs_no_role:
  "(verify e (or_empty authorization) (JWT_SECRET e) = VerifyPayload i \<and> body = Some b
      \<and> companyValidation V b \<and> cb_name b = Some n \<and> cb_logo b = Some l
      \<and> n \<notin> c_name ` set (companies s) \<and> uuid e \<notin> c_id ` set (companies s) \<longrightarrow>
    companyRouter_post_create V e s authorization body
      = ((200, Reply True ''Company created successfully''
            (CompanyRow \<lparr> c_id = uuid e, c_name = n, logo = l \<rparr>)),
         s\<lparr>companies := companies s @ [\<lparr> c_id = uuid e, c_name = n, logo = l \<rparr>]\<rparr>))
   \<and> (verify e (or_empty authorization) (JWT_SECRET e) = VerifyPayload i \<longrightarrow>
        fst (fst (companyRouter_post_create V e s authorization body)) = 200
        \<or> (fst (fst (companyRouter_post_create V e s authorization body)) = 400
            \<and> (\<exists>b'. body = Some b' \<and> (\<not> companyValidation V b'
                  \<or> (\<exists>c \<in> set (companies s). matches (cb_name b') (c_name c)))))
        \<or> (\<exists>x. fst (companyRouter_post_create V e s authorization body)
                 = (500, Reply False ''Server error during creating company'' (Thrown x))))
   \<and> companyRouter_post_create V e (s\<lparr>users := us\<rparr>) authorization body
       = (fst (companyRouter_post_create V e s authorization body),
          (snd (companyRouter_post_create V e s authorization body))\<lparr>users := us\<rparr>)"
proof (intro conjI impI)
  assume h: "verify e (or_empty authorization) (JWT_SECRET e) = VerifyPayload i \<and> body = Some b
      \<and> companyValidation V b \<and> cb_name b = Some n \<and> cb_logo b = Some l
      \<and> n \<notin> c_name ` set (companies s) \<and> uuid e \<notin> c_id ` set (companies s)"
  then have "find (\<lambda>c. matches (cb_name b) (c_name c)) (companies s) = None"
    by (auto simp: find_None_iff matches_def)
  with h show "companyRouter_post_create V e s authorization body
      = ((200, Reply True ''Company created successfully''
            (CompanyRow \<lparr> c_id = uuid e, c_name = n, logo = l \<rparr>)),
         s\<lparr>companies := companies s @ [\<lparr> c_id = uuid e, c_name = n, logo = l \<rparr>]\<rparr>)"
    by (simp add: companyRouter_post_create_def companyRouter_use_def authenticate_def
        post_create_def catch_def company_create_def Let_def)
next
  assume h: "verify e (or_empty authorization) (JWT_SECRET e) = VerifyPayload i"
  then have run: "companyRouter_post_create V e s authorization body = post_create V e s body"
    by (simp add: companyRouter_post_create_def companyRouter_use_def authenticate_def)
  show "fst (fst (companyRouter_post_create V e s authorization body)) = 200
        \<or> (fst (fst (companyRouter_post_create V e s authorization body)) = 400
            \<and> (\<exists>b'. body = Some b' \<and> (\<not> companyValidation V b'
                  \<or> (\<exists>c \<in> set (companies s). matches (cb_name b') (c_name c)))))
        \<or> (\<exists>x. fst (companyRouter_post_create V e s authorization body)
                 = (500, Reply False ''Server error during creating company'' (Thrown x)))"
    unfolding run
    by (auto simp: post_create_def catch_def find_Some_iff split: option.splits sum.splits dest: nth_mem)
next
  show "companyRouter_post_create V e (s\<lparr>users := us\<rparr>) authorization body
       = (fst (companyRouter_post_create V e s authorization body),
          (snd (companyRouter_post_create V e s authorization body))\<lparr>users := us\<rparr>)"
    by (auto simp: companyRouter_post_create_def companyRouter_use_def authenticate_def
        post_create_def catch_def company_create_def Let_def
        split: option.splits sum.splits verify_result.splits)
qed

theorem company_create_needs_no_role_witness:
  "verify env0 (or_empty (Some ''token-u1'')) (JWT_SECRET env0) = VerifyPayload (Some ''u1'')
   \<and> alice \<in> set (users db0) \<and> u_id alice = ''u1'' \<and> role alice = Candidate
   \<and> companyRouter_post_create Validation_spec env0 db0 (Some ''token-u1'') (Some initech)
       = ((200, Reply True ''Company created successfully''
            (CompanyRow \<lparr> c_id = ''fresh'', c_name = ''Initech'', logo = ''initech.png'' \<rparr>)),
          db0\<lparr>companies := [acme, \<lparr> c_id = ''fresh'', c_name = ''Initech'', logo = ''initech.png'' \<rparr>]\<rparr>)"
proof -
  have h: "verify env0 (or_empty (Some ''token-u1'')) (JWT_SECRET env0) = VerifyPayload (Some ''u1'')
      \<and> Some initech = Some initech
      \<and> companyValidation Validation_spec initech
      \<and> cb_name initech = Some ''Initech'' \<and> cb_logo initech = Some ''initech.png''
      \<and> ''Initech'' \<notin> c_name ` set (companies db0) \<and> uuid env0 \<notin> c_id ` set (companies db0)"
    by (simp add: env0_def or_empty_def Validation_spec_def initech_def db0_def acme_def)
  have u: "alice \<in> set (users db0)" "u_id alice = ''u1''" "role alice = Candidate"
    by (simp_all add: db0_def alice_def)
  have c: "uuid env0 = ''fresh''" "companies db0 = [acme]"
    by (simp_all add: env0_def db0_def)
  from company_create_needs_no_role
         [where e = env0 and authorization = "Some ''token-u1''" and i = "Some ''u1''"
            and body = "Some initech" and b = initech and V = Validation_spec
            and n = "''Initech''" and l = "''initech.png''" and s = db0 and us = "users db0"] h
  have "companyRouter_post_create Validation_spec env0 db0 (Some ''token-u1'') (Some initech)
      = ((200, Reply True ''Company created successfully''
            (CompanyRow \<lparr> c_id = uuid env0, c_name = ''Initech'', logo = ''initech.png'' \<rparr>)),
         db0\<lparr>companies := companies db0 @ [\<lparr> c_id = uuid env0, c_name = ''Initech'', logo = ''initech.png'' \<rparr>]\<rparr>)"
    by blast
  with h u c show ?thesis by simp
qed

end
